theory Spec2Isabelle
  imports Main "HOL-Library.Word" "HOL-Library.Signed_Division"
begin

section \<open>Errors\<close>

text \<open>
  Go error values. The sentinel errors of the service package
  (\<^verbatim>\<open>ErrUserNotFound\<close>, \<^verbatim>\<open>ErrEmailAlreadyExists\<close>,
  \<^verbatim>\<open>ErrInvalidCredentials\<close>), of the jwt package (\<^verbatim>\<open>ErrInvalidToken\<close>)
  and of gorm (\<^verbatim>\<open>gorm.ErrRecordNotFound\<close>) are constructors of their own; any
  other error created with \<^verbatim>\<open>errors.New\<close> is \<open>ErrOther\<close> with its message, and
  an error wrapping another one (\<^verbatim>\<open>%w\<close>) is \<open>Wrapped\<close>.
\<close>

datatype error =
    ErrRecordNotFound
  | ErrUserNotFound
  | ErrEmailAlreadyExists
  | ErrInvalidCredentials
  | ErrInvalidToken
  | ErrOther string
  | Wrapped string error

text \<open>\<^verbatim>\<open>errors.Is(err, target)\<close>: equality with the target somewhere on the chain of
  wrapped errors.\<close>

fun errors_Is :: "error \<Rightarrow> error \<Rightarrow> bool" where
  "errors_Is (Wrapped m e) t = (Wrapped m e = t \<or> errors_Is e t)"
| "errors_Is e t = (e = t)"

section \<open>Data model\<close>

text \<open>Go's \<^verbatim>\<open>int\<close> (64 bits on the platforms the service is built for) and
  \<^verbatim>\<open>int64\<close>: two's complement words; \<open>+\<close>, \<open>-\<close> and \<open>*\<close> wrap, comparisons are
  the signed ones (\<open><s\<close>).\<close>

type_synonym go_int = "64 word"
type_synonym int64 = "64 word"

text \<open>
  \<^verbatim>\<open>model.User\<close>. The embedded \<^verbatim>\<open>model.Base\<close> is not among the sources; the
  code in scope reads only \<^verbatim>\<open>user.ID.String()\<close> from it, so \<open>ID\<close> is the
  identifier in its string form.
\<close>

record User =
  ID :: string
  Name :: string
  Email :: string
  Password :: string
  Role :: string
  IsActive :: bool

record CreateUserInput =
  in_Name :: string
  in_Email :: string
  in_Password :: string

record UpdateUserInput =
  upd_Name :: string

record UserResponse =
  resp_ID :: string
  resp_Name :: string
  resp_Email :: string
  resp_Role :: string
  resp_IsActive :: bool

record LoginInput =
  login_Email :: string
  login_Password :: string

record 't AuthResponse =
  Token :: 't
  AuthUser :: UserResponse

section \<open>The database handle\<close>

text \<open>
  \<^verbatim>\<open>*gorm.DB\<close> is an external collaborator: its behaviour is a parameter. The
  state \<open>'s\<close> of the backend is threaded through every query; each field is one of the
  query chains the repository builds.
  \<^item> \<open>db_Create\<close>: \<^verbatim>\<open>DB.WithContext(ctx).Create(entity).Error\<close>, with the entity as the
    call leaves it (gorm fills the identifier in);
  \<^item> \<open>db_First\<close>: \<^verbatim>\<open>Where(cond).First(&entity).Error\<close> with the entity read;
  \<^item> \<open>db_Count\<close>: \<^verbatim>\<open>Model(new(T)).Count(&total)\<close>, the count or the error;
  \<^item> \<open>db_Find\<close>: \<^verbatim>\<open>Offset(offset).Limit(limit).Find(&entities).Error\<close>;
  \<^item> \<open>db_Save\<close>: \<^verbatim>\<open>Save(entity).Error\<close>;
  \<^item> \<open>db_Delete\<close>: \<^verbatim>\<open>Where(cond).Delete(&entity).Error\<close>.
\<close>

datatype cond = Where_id string | Where_email string

record 's DB =
  db_Create :: "'s \<Rightarrow> User \<Rightarrow> (error option \<times> User) \<times> 's"
  db_First :: "'s \<Rightarrow> cond \<Rightarrow> (error option \<times> User) \<times> 's"
  db_Count :: "'s \<Rightarrow> (error + int64) \<times> 's"
  db_Find :: "'s \<Rightarrow> go_int \<Rightarrow> go_int \<Rightarrow> (error option \<times> User list) \<times> 's"
  db_Save :: "'s \<Rightarrow> User \<Rightarrow> (error option \<times> User) \<times> 's"
  db_Delete :: "'s \<Rightarrow> cond \<Rightarrow> error option \<times> 's"

section \<open>Repository layer\<close>

text \<open>\<^verbatim>\<open>BaseRepository[T]\<close> at \<^verbatim>\<open>T = model.User\<close>. A \<^verbatim>\<open>(*T, error)\<close> result is
  \<open>Inl err\<close> for \<^verbatim>\<open>(nil, err)\<close> and \<open>Inr entity\<close> for \<^verbatim>\<open>(&entity, nil)\<close>, the only two
  shapes the repository returns.\<close>

definition BaseRepository_Create :: "'s DB \<Rightarrow> 's \<Rightarrow> User \<Rightarrow> (error option \<times> User) \<times> 's" where
  "BaseRepository_Create db s entity = db_Create db s entity"

definition BaseRepository_FindByID :: "'s DB \<Rightarrow> 's \<Rightarrow> string \<Rightarrow> (error + User) \<times> 's" where
  "BaseRepository_FindByID db s ident =
     (case db_First db s (Where_id ident) of
        ((Some err, _), s') \<Rightarrow> (Inl err, s')
      | ((None, entity), s') \<Rightarrow> (Inr entity, s'))"

text \<open>\<^verbatim>\<open>FindAll\<close>: the result of the count query is not looked at; \<open>total\<close> keeps its
  zero value when the count fails. The offset is computed in machine arithmetic.\<close>

definition BaseRepository_FindAll ::
  "'s DB \<Rightarrow> 's \<Rightarrow> go_int \<Rightarrow> go_int \<Rightarrow> (User list \<times> int64 \<times> error option) \<times> 's" where
  "BaseRepository_FindAll db s page perPage =
     (case db_Count db s of
        (counted, s1) \<Rightarrow>
          let total' = (case counted of Inr n \<Rightarrow> n | Inl _ \<Rightarrow> 0);
              offset = (page - 1) * perPage
          in (case db_Find db s1 offset perPage of
                ((err, entities), s2) \<Rightarrow> ((entities, total', err), s2)))"

definition BaseRepository_Update :: "'s DB \<Rightarrow> 's \<Rightarrow> User \<Rightarrow> (error option \<times> User) \<times> 's" where
  "BaseRepository_Update db s entity = db_Save db s entity"

definition BaseRepository_Delete :: "'s DB \<Rightarrow> 's \<Rightarrow> string \<Rightarrow> error option \<times> 's" where
  "BaseRepository_Delete db s ident = db_Delete db s (Where_id ident)"

definition userRepository_FindByEmail :: "'s DB \<Rightarrow> 's \<Rightarrow> string \<Rightarrow> (error + User) \<times> 's" where
  "userRepository_FindByEmail db s email =
     (case db_First db s (Where_email email) of
        ((Some err, _), s') \<Rightarrow> (Inl err, s')
      | ((None, user), s') \<Rightarrow> (Inr user, s'))"

text \<open>The \<^verbatim>\<open>UserRepository\<close> interface: the six methods the services call. A method
  that takes a \<^verbatim>\<open>*model.User\<close> returns the entity as the call leaves it.\<close>

record 's UserRepository =
  repo_Create :: "'s \<Rightarrow> User \<Rightarrow> (error option \<times> User) \<times> 's"
  repo_FindByID :: "'s \<Rightarrow> string \<Rightarrow> (error + User) \<times> 's"
  repo_FindByEmail :: "'s \<Rightarrow> string \<Rightarrow> (error + User) \<times> 's"
  repo_FindAll :: "'s \<Rightarrow> go_int \<Rightarrow> go_int \<Rightarrow> (User list \<times> int64 \<times> error option) \<times> 's"
  repo_Update :: "'s \<Rightarrow> User \<Rightarrow> (error option \<times> User) \<times> 's"
  repo_Delete :: "'s \<Rightarrow> string \<Rightarrow> error option \<times> 's"

definition NewUserRepository :: "'s DB \<Rightarrow> 's UserRepository" where
  "NewUserRepository db =
     \<lparr> repo_Create = BaseRepository_Create db,
       repo_FindByID = BaseRepository_FindByID db,
       repo_FindByEmail = userRepository_FindByEmail db,
       repo_FindAll = BaseRepository_FindAll db,
       repo_Update = BaseRepository_Update db,
       repo_Delete = BaseRepository_Delete db \<rparr>"

section \<open>Password hashing\<close>

text \<open>The two functions of \<^verbatim>\<open>golang.org/x/crypto/bcrypt\<close> the services call, as
  parameters: \<^verbatim>\<open>GenerateFromPassword\<close> at the default cost (the hash or an error)
  and \<^verbatim>\<open>CompareHashAndPassword hash password\<close> (\<open>None\<close> is Go's \<^verbatim>\<open>nil\<close>).\<close>

record bcrypt =
  GenerateFromPassword :: "string \<Rightarrow> error + string"
  CompareHashAndPassword :: "string \<Rightarrow> string \<Rightarrow> error option"

section \<open>User service\<close>

definition toUserResponse :: "User \<Rightarrow> UserResponse" where
  "toUserResponse user =
     \<lparr> resp_ID = ID user,
       resp_Name = Name user,
       resp_Email = Email user,
       resp_Role = Role user,
       resp_IsActive = IsActive user \<rparr>"

text \<open>The string form of the zero \<^verbatim>\<open>uuid.UUID\<close>, which a freshly built
  \<^verbatim>\<open>model.User\<close> carries until the backend assigns one.\<close>

definition zero_ID :: string where
  "zero_ID = ''00000000-0000-0000-0000-000000000000''"

text \<open>\<^verbatim>\<open>Create\<close>: the error of the lookup is dropped (\<^verbatim>\<open>existing, _ := ...\<close>); only
  \<^verbatim>\<open>existing != nil\<close> is tested.\<close>

definition userService_Create ::
  "'s UserRepository \<Rightarrow> bcrypt \<Rightarrow> 's \<Rightarrow> CreateUserInput \<Rightarrow> (error + UserResponse) \<times> 's" where
  "userService_Create r bc s input =
     (case repo_FindByEmail r s (in_Email input) of
        (Inr existing, s1) \<Rightarrow> (Inl ErrEmailAlreadyExists, s1)
      | (Inl _, s1) \<Rightarrow>
          (case GenerateFromPassword bc (in_Password input) of
             Inl err \<Rightarrow> (Inl err, s1)
           | Inr hashedPassword \<Rightarrow>
               (case repo_Create r s1
                       \<lparr> ID = zero_ID,
                         Name = in_Name input,
                         Email = in_Email input,
                         Password = hashedPassword,
                         Role = ''user'',
                         IsActive = True \<rparr> of
                  ((Some err, _), s2) \<Rightarrow> (Inl err, s2)
                | ((None, user), s2) \<Rightarrow> (Inr (toUserResponse user), s2))))"

definition userService_FindByID ::
  "'s UserRepository \<Rightarrow> 's \<Rightarrow> string \<Rightarrow> (error + UserResponse) \<times> 's" where
  "userService_FindByID r s ident =
     (case repo_FindByID r s ident of
        (Inl err, s1) \<Rightarrow>
          (if errors_Is err ErrRecordNotFound then (Inl ErrUserNotFound, s1)
           else (Inl err, s1))
      | (Inr user, s1) \<Rightarrow> (Inr (toUserResponse user), s1))"

definition userService_FindAll ::
  "'s UserRepository \<Rightarrow> 's \<Rightarrow> go_int \<Rightarrow> go_int \<Rightarrow> (error + UserResponse list \<times> int64) \<times> 's" where
  "userService_FindAll r s page perPage =
     (case repo_FindAll r s page perPage of
        ((users, total', Some err), s1) \<Rightarrow> (Inl err, s1)
      | ((users, total', None), s1) \<Rightarrow> (Inr (map toUserResponse users, total'), s1))"

definition userService_Update ::
  "'s UserRepository \<Rightarrow> 's \<Rightarrow> string \<Rightarrow> UpdateUserInput \<Rightarrow> (error + UserResponse) \<times> 's" where
  "userService_Update r s ident input =
     (case repo_FindByID r s ident of
        (Inl err, s1) \<Rightarrow>
          (if errors_Is err ErrRecordNotFound then (Inl ErrUserNotFound, s1)
           else (Inl err, s1))
      | (Inr user, s1) \<Rightarrow>
          (case repo_Update r s1
                  (if upd_Name input \<noteq> '''' then user\<lparr>Name := upd_Name input\<rparr> else user) of
             ((Some err, _), s2) \<Rightarrow> (Inl err, s2)
           | ((None, user'), s2) \<Rightarrow> (Inr (toUserResponse user'), s2)))"

definition userService_Delete :: "'s UserRepository \<Rightarrow> 's \<Rightarrow> string \<Rightarrow> error option \<times> 's" where
  "userService_Delete r s ident =
     (case repo_FindByID r s ident of
        (Inl err, s1) \<Rightarrow>
          (if errors_Is err ErrRecordNotFound then (Some ErrUserNotFound, s1)
           else (Some err, s1))
      | (Inr _, s1) \<Rightarrow> repo_Delete r s1 ident)"

section \<open>Auth service\<close>

text \<open>\<^verbatim>\<open>Login\<close>. The token manager's \<^verbatim>\<open>Generate\<close> is the parameter \<open>generate\<close>
  (user id, email, role to a token or an error).\<close>

definition authService_Login ::
  "'s UserRepository \<Rightarrow> bcrypt \<Rightarrow> (string \<Rightarrow> string \<Rightarrow> string \<Rightarrow> error + 't) \<Rightarrow> 's \<Rightarrow> LoginInput
     \<Rightarrow> (error + 't AuthResponse) \<times> 's" where
  "authService_Login r bc generate s input =
     (case repo_FindByEmail r s (login_Email input) of
        (Inl err, s1) \<Rightarrow> (Inl ErrInvalidCredentials, s1)
      | (Inr user, s1) \<Rightarrow>
          (case CompareHashAndPassword bc (Password user) (login_Password input) of
             Some err \<Rightarrow> (Inl ErrInvalidCredentials, s1)
           | None \<Rightarrow>
               if \<not> IsActive user then (Inl ErrInvalidCredentials, s1)
               else (case generate (ID user) (Email user) (Role user) of
                       Inl err \<Rightarrow> (Inl err, s1)
                     | Inr token \<Rightarrow>
                         (Inr \<lparr> Token = token, AuthUser = toUserResponse user \<rparr>, s1))))"

section \<open>HTTP handler for the user list\<close>

text \<open>The part of \<^verbatim>\<open>pkg/response\<close> that \<^verbatim>\<open>UserHandler.FindAll\<close> uses. Go's integer
  division truncates and panics on a zero divisor.\<close>

record PaginatedData =
  Items :: "UserResponse list"
  Total :: int64
  Page :: go_int
  PerPage :: go_int
  TotalPages :: go_int

datatype response =
    Success_Paginated PaginatedData
  | InternalServerError string
  | Panic_divide_by_zero

definition Paginated :: "UserResponse list \<Rightarrow> int64 \<Rightarrow> go_int \<Rightarrow> go_int \<Rightarrow> response" where
  "Paginated items total' page perPage =
     (if perPage = 0 then Panic_divide_by_zero
      else
        let totalPages = (word_of_int (sint total' sdiv sint perPage) :: go_int);
            totalPages = (if (0 :: go_int) <s word_of_int (sint total' smod sint perPage)
                          then totalPages + 1 else totalPages)
        in Success_Paginated
             \<lparr> Items = items, Total = total', Page = page, PerPage = perPage,
               TotalPages = totalPages \<rparr>)"

text \<open>\<^verbatim>\<open>c.Query(key, default)\<close> of the web framework: the default stands in for an
  absent or empty parameter. The query string is a function from keys to values
  (the empty string when absent).\<close>

definition Query :: "(string \<Rightarrow> string) \<Rightarrow> string \<Rightarrow> string \<Rightarrow> string" where
  "Query q key dflt = (if q key = '''' then dflt else q key)"

text \<open>\<^verbatim>\<open>UserHandler.FindAll\<close>. \<open>svc\<close> is the \<^verbatim>\<open>FindAll\<close> method of the user service the
  handler holds, \<open>atoi\<close> is \<^verbatim>\<open>strconv.Atoi\<close> (its error is dropped by the handler).\<close>

definition UserHandler_FindAll ::
  "('s \<Rightarrow> go_int \<Rightarrow> go_int \<Rightarrow> (error + UserResponse list \<times> int64) \<times> 's)
     \<Rightarrow> (string \<Rightarrow> go_int \<times> error option) \<Rightarrow> (string \<Rightarrow> string) \<Rightarrow> 's \<Rightarrow> response \<times> 's" where
  "UserHandler_FindAll svc atoi q s =
     (let page = fst (atoi (Query q ''page'' ''1''));
          perPage = fst (atoi (Query q ''per_page'' ''10''));
          page = (if page <s 1 then 1 else page);
          perPage = (if perPage <s 1 \<or> 100 <s perPage then 10 else perPage)
      in (case svc s page perPage of
            (Inl err, s1) \<Rightarrow> (InternalServerError ''Failed to fetch users'', s1)
          | (Inr (users, total'), s1) \<Rightarrow> (Paginated users total' page perPage, s1)))"

section \<open>Recording the calls made on a repository\<close>

text \<open>As the mock repository of the service tests does, \<open>recording r\<close> answers
  every call as \<open>r\<close> does and appends the call, with its arguments, to a log kept in
  the state.\<close>

datatype call =
    Call_Create User
  | Call_FindByID string
  | Call_FindByEmail string
  | Call_FindAll go_int go_int
  | Call_Update User
  | Call_Delete string

definition recording :: "'s UserRepository \<Rightarrow> (call list \<times> 's) UserRepository" where
  "recording r =
     \<lparr> repo_Create = (\<lambda>(log, s) user.
         case repo_Create r s user of (res, s') \<Rightarrow> (res, (log @ [Call_Create user], s'))),
       repo_FindByID = (\<lambda>(log, s) ident.
         case repo_FindByID r s ident of (res, s') \<Rightarrow> (res, (log @ [Call_FindByID ident], s'))),
       repo_FindByEmail = (\<lambda>(log, s) email.
         case repo_FindByEmail r s email of (res, s') \<Rightarrow> (res, (log @ [Call_FindByEmail email], s'))),
       repo_FindAll = (\<lambda>(log, s) page perPage.
         case repo_FindAll r s page perPage of
           (res, s') \<Rightarrow> (res, (log @ [Call_FindAll page perPage], s'))),
       repo_Update = (\<lambda>(log, s) user.
         case repo_Update r s user of (res, s') \<Rightarrow> (res, (log @ [Call_Update user], s'))),
       repo_Delete = (\<lambda>(log, s) ident.
         case repo_Delete r s ident of (res, s') \<Rightarrow> (res, (log @ [Call_Delete ident], s'))) \<rparr>"

text \<open>A mock repository with canned answers, as \<^verbatim>\<open>mockRepo.On(...).Return(...)\<close>
  sets one up: every method returns its canned value whatever the arguments; a
  successful \<^verbatim>\<open>Create\<close> assigns the identifier \<open>new_ID\<close>.\<close>

record canned =
  on_Create :: "error option"
  new_ID :: string
  on_FindByID :: "error + User"
  on_FindByEmail :: "error + User"
  on_FindAll :: "User list \<times> int64 \<times> error option"
  on_Update :: "error option"
  on_Delete :: "error option"

definition MockUserRepository :: "canned \<Rightarrow> unit UserRepository" where
  "MockUserRepository c =
     \<lparr> repo_Create = (\<lambda>s user.
         ((on_Create c, if on_Create c = None then user\<lparr>ID := new_ID c\<rparr> else user), s)),
       repo_FindByID = (\<lambda>s ident. (on_FindByID c, s)),
       repo_FindByEmail = (\<lambda>s email. (on_FindByEmail c, s)),
       repo_FindAll = (\<lambda>s page perPage. (on_FindAll c, s)),
       repo_Update = (\<lambda>s user. ((on_Update c, user), s)),
       repo_Delete = (\<lambda>s ident. (on_Delete c, s)) \<rparr>"

section \<open>Token manager\<close>

text \<open>
  Modelled from the spec: \<^verbatim>\<open>pkg/jwt/jwt.go\<close> (the \<^verbatim>\<open>JWTManager\<close> with its
  \<^verbatim>\<open>Generate\<close> and \<^verbatim>\<open>Validate\<close>) is missing from the sources, which hold only its
  test. The spec's TokenManager: \<^verbatim>\<open>Issue\<close> encodes the claims subject, email, role,
  issued_at = now and expires_at = now + TTL and signs them with the secret fixed at
  construction, failing only when signing fails; \<^verbatim>\<open>Verify\<close> fails with the single error
  \<^verbatim>\<open>InvalidToken\<close> when the structure is malformed, the signature does not match, or
  expires_at \<open>\<le>\<close> now. The TTL is a number of hours; times are in seconds. The
  signature algorithm is the parameter \<open>sign\<close> (key and claims to a signature), and a
  token string is either a well-formed signed token or anything else.
\<close>

record Claims =
  UserID :: string
  claim_Email :: string
  claim_Role :: string
  IssuedAt :: int
  ExpiresAt :: int

record JWTManager =
  secret :: string
  expireHours :: int

datatype 'g token = Signed Claims 'g | Malformed string

definition JWTManager_Generate ::
  "(string \<Rightarrow> Claims \<Rightarrow> error + 'g) \<Rightarrow> JWTManager \<Rightarrow> int \<Rightarrow> string \<Rightarrow> string \<Rightarrow> string
     \<Rightarrow> error + 'g token" where
  "JWTManager_Generate sign m now userID email role =
     (let claims = \<lparr> UserID = userID, claim_Email = email, claim_Role = role,
                      IssuedAt = now, ExpiresAt = now + expireHours m * 3600 \<rparr>
      in (case sign (secret m) claims of
            Inl err \<Rightarrow> Inl err
          | Inr signature \<Rightarrow> Inr (Signed claims signature)))"

definition JWTManager_Validate ::
  "(string \<Rightarrow> Claims \<Rightarrow> error + 'g) \<Rightarrow> JWTManager \<Rightarrow> int \<Rightarrow> 'g token \<Rightarrow> error + Claims" where
  "JWTManager_Validate sign m now tokenString =
     (case tokenString of
        Malformed _ \<Rightarrow> Inl ErrInvalidToken
      | Signed claims signature \<Rightarrow>
          if sign (secret m) claims \<noteq> Inr signature then Inl ErrInvalidToken
          else if ExpiresAt claims \<le> now then Inl ErrInvalidToken
          else Inr claims)"

section \<open>Test data\<close>

text \<open>Concrete collaborators on which the operations are run: a stored user; mock
  repositories that hold no user, that hold this user, and whose lookup by email fails
  with a connection error; a stand-in for bcrypt; a database whose count query times
  out; a stand-in for \<^verbatim>\<open>strconv.Atoi\<close> on the strings used; a query string; stand-ins
  for the signature algorithm and for the token manager's \<^verbatim>\<open>Generate\<close>.\<close>

definition alice :: User where
  "alice = \<lparr> ID = ''6f1c0a52-0f0e-4e7b-9d55-1c2f9a3b7e10'', Name = ''Alice'',
             Email = ''alice@example.com'', Password = ''$2a$10$s3cret-pass'',
             Role = ''user'', IsActive = True \<rparr>"

definition empty_backend :: canned where
  "empty_backend =
     \<lparr> on_Create = None, new_ID = ''0b9d6c1e-58a3-4d0f-8a57-3f6f2f1f2a77'',
       on_FindByID = Inl ErrRecordNotFound, on_FindByEmail = Inl ErrRecordNotFound,
       on_FindAll = ([], 0, None), on_Update = None, on_Delete = None \<rparr>"

definition fake_bcrypt :: bcrypt where
  "fake_bcrypt =
     \<lparr> GenerateFromPassword = (\<lambda>password. Inr (''$2a$10$'' @ password)),
       CompareHashAndPassword = (\<lambda>hash password.
         if hash = ''$2a$10$'' @ password then None
         else Some (ErrOther ''crypto/bcrypt: hashedPassword is not the hash of the given password'')) \<rparr>"

definition flaky_db :: "unit DB" where
  "flaky_db =
     \<lparr> db_Create = (\<lambda>s entity. ((None, entity), s)),
       db_First = (\<lambda>s c. ((Some ErrRecordNotFound, alice), s)),
       db_Count = (\<lambda>s. (Inl (ErrOther ''context deadline exceeded''), s)),
       db_Find = (\<lambda>s offset limit. ((None, [alice]), s)),
       db_Save = (\<lambda>s entity. ((None, entity), s)),
       db_Delete = (\<lambda>s c. (None, s)) \<rparr>"

definition atoi_sample :: "string \<Rightarrow> go_int \<times> error option" where
  "atoi_sample v =
     (if v = ''0'' then (0, None)
      else if v = ''1'' then (1, None)
      else if v = ''10'' then (10, None)
      else if v = ''500'' then (500, None)
      else (0, Some (ErrOther ''strconv.Atoi: invalid syntax'')))"

definition query_sample :: "string \<Rightarrow> string" where
  "query_sample key =
     (if key = ''page'' then ''0'' else if key = ''per_page'' then ''500'' else [])"

definition toy_sign :: "string \<Rightarrow> Claims \<Rightarrow> error + string" where
  "toy_sign key claims =
     Inr (key @ ''.'' @ UserID claims @ ''.'' @ claim_Email claims @ ''.'' @ claim_Role claims)"

definition const_token :: "string \<Rightarrow> string \<Rightarrow> string \<Rightarrow> error + string" where
  "const_token userID email role = Inr (''token-for-'' @ userID)"

definition alice_backend :: canned where
  "alice_backend =
     empty_backend\<lparr> on_FindByID := Inr alice, on_FindByEmail := Inr alice,
                    on_FindAll := ([alice], 1, None) \<rparr>"

definition backend_down :: canned where
  "backend_down =
     empty_backend\<lparr> on_FindByEmail := Inl (ErrOther ''database connection failed'') \<rparr>"

section \<open>Auxiliary facts\<close>

lemma recording_simps:
  "repo_Create (recording r) (log, s) user =
     (case repo_Create r s user of (res, s') \<Rightarrow> (res, (log @ [Call_Create user], s')))"
  "repo_FindByID (recording r) (log, s) ident =
     (case repo_FindByID r s ident of (res, s') \<Rightarrow> (res, (log @ [Call_FindByID ident], s')))"
  "repo_FindByEmail (recording r) (log, s) email =
     (case repo_FindByEmail r s email of (res, s') \<Rightarrow> (res, (log @ [Call_FindByEmail email], s')))"
  "repo_FindAll (recording r) (log, s) page perPage =
     (case repo_FindAll r s page perPage of
        (res, s') \<Rightarrow> (res, (log @ [Call_FindAll page perPage], s')))"
  "repo_Update (recording r) (log, s) user =
     (case repo_Update r s user of (res, s') \<Rightarrow> (res, (log @ [Call_Update user], s')))"
  "repo_Delete (recording r) (log, s) ident =
     (case repo_Delete r s ident of (res, s') \<Rightarrow> (res, (log @ [Call_Delete ident], s')))"
  by (simp_all add: recording_def)

lemma userService_FindAll_log:
  "fst (snd (userService_FindAll (recording r) (log, s) page perPage)) =
     log @ [Call_FindAll page perPage]"
  by (simp add: userService_FindAll_def recording_simps split: prod.splits option.splits)

lemma UserHandler_FindAll_state:
  "snd (UserHandler_FindAll svc atoi q s) =
     snd (svc s
       (if fst (atoi (Query q ''page'' ''1'')) <s 1 then 1
        else fst (atoi (Query q ''page'' ''1'')))
       (if fst (atoi (Query q ''per_page'' ''10'')) <s 1
           \<or> 100 <s fst (atoi (Query q ''per_page'' ''10''))
        then 10 else fst (atoi (Query q ''per_page'' ''10''))))"
  unfolding UserHandler_FindAll_def Let_def
  by (simp split: prod.split sum.split)

lemma UserResponse_fields:
  "(resp :: UserResponse) =
      \<lparr> resp_ID = resp_ID resp, resp_Name = resp_Name resp, resp_Email = resp_Email resp,
        resp_Role = resp_Role resp, resp_IsActive = resp_IsActive resp \<rparr>"
  by simp

lemma toUserResponse_Password: "toUserResponse (user\<lparr>Password := h\<rparr>) = toUserResponse user"
  by (simp add: toUserResponse_def)

lemma FindByID_response:
  "repo_FindByID r s ident = (Inr user, s1) \<Longrightarrow>
     fst (userService_FindByID r s ident) = Inr (toUserResponse user)"
  by (simp add: userService_FindByID_def)

lemma FindAll_response:
  "repo_FindAll r s page perPage = ((users, n, None), s1) \<Longrightarrow>
     fst (userService_FindAll r s page perPage) = Inr (map toUserResponse users, n)"
  by (simp add: userService_FindAll_def)

lemma Update_response:
  "repo_FindByID r s ident = (Inr user, s1) \<Longrightarrow>
   repo_Update r s1 (if upd_Name input \<noteq> [] then user\<lparr>Name := upd_Name input\<rparr> else user)
     = ((None, saved), s2) \<Longrightarrow>
     fst (userService_Update r s ident input) = Inr (toUserResponse saved)"
  by (simp add: userService_Update_def)

lemma Create_response:
  "repo_FindByEmail r s (in_Email cin) = (Inl err, s1) \<Longrightarrow>
   GenerateFromPassword bc (in_Password cin) = Inr hashed \<Longrightarrow>
   repo_Create r s1 \<lparr> ID = zero_ID, Name = in_Name cin, Email = in_Email cin,
                       Password = hashed, Role = ''user'', IsActive = True \<rparr>
     = ((None, created), s2) \<Longrightarrow>
     fst (userService_Create r bc s cin) = Inr (toUserResponse created)"
  by (simp add: userService_Create_def)

lemma Login_response:
  "repo_FindByEmail r s (login_Email lin) = (Inr user, s1) \<Longrightarrow>
   CompareHashAndPassword bc (Password user) (login_Password lin) = None \<Longrightarrow>
   IsActive user \<Longrightarrow>
   generate (ID user) (Email user) (Role user) = Inr tok \<Longrightarrow>
     fst (authService_Login r bc generate s lin)
       = Inr \<lparr> Token = tok, AuthUser = toUserResponse user \<rparr>"
  by (simp add: authService_Login_def)

section \<open>Pagination\<close>

text \<open>
  C1, as stated: \<^verbatim>\<open>userService.FindAll\<close> itself replaces a page below 1 by 1 and a
  per_page outside 1..100 by 10 before it calls the store. It does not: called with
  page 0 and per_page 0, the service hands 0 and 0 to the store.
\<close>

theorem userService_FindAll_hands_page_zero_to_store:
  "(0 :: go_int) <s 1 \<and>
   fst (snd (userService_FindAll (recording (MockUserRepository empty_backend)) ([], ()) 0 0))
     = [Call_FindAll 0 0]"
  by (simp add: userService_FindAll_def recording_simps MockUserRepository_def empty_backend_def
      word_sless_alt)

text \<open>
  C1, amended: the normalization is done by the handler \<^verbatim>\<open>UserHandler.FindAll\<close>, before
  it calls the service. With \<open>p\<close> and \<open>pp\<close> the values parsed from the query, the one
  call the store receives carries page 1 when \<open>p < 1\<close> and \<open>p\<close> otherwise, and
  per_page 10 when \<open>pp < 1\<close> or \<open>pp > 100\<close> and \<open>pp\<close> otherwise;
  \<^verbatim>\<open>userService.FindAll\<close> passes the page and per_page it is given to the store
  unchanged.
\<close>

theorem UserHandler_FindAll_normalizes_before_store:
  assumes "atoi (Query q ''page'' ''1'') = (p, e1)"
    and "atoi (Query q ''per_page'' ''10'') = (pp, e2)"
  shows "fst (snd (UserHandler_FindAll (userService_FindAll (recording r)) atoi q (log, s))) =
           log @ [Call_FindAll (if p <s 1 then 1 else p)
                               (if pp <s 1 \<or> 100 <s pp then 10 else pp)]
         \<and> fst (snd (userService_FindAll (recording r) (log, s) page perPage)) =
           log @ [Call_FindAll page perPage]"
  using assms by (simp add: UserHandler_FindAll_state userService_FindAll_log)

theorem UserHandler_FindAll_normalizes_witness:
  "atoi_sample (Query query_sample ''page'' ''1'') = (0, None)
   \<and> atoi_sample (Query query_sample ''per_page'' ''10'') = (500, None)
   \<and> fst (snd (UserHandler_FindAll
                  (userService_FindAll (recording (MockUserRepository empty_backend)))
                  atoi_sample query_sample ([], ()))) = [Call_FindAll 1 10]
   \<and> fst (snd (userService_FindAll (recording (MockUserRepository empty_backend)) ([], ()) 3 25))
       = [Call_FindAll 3 25]"
  using UserHandler_FindAll_normalizes_before_store [of atoi_sample query_sample
      0 None 500 None "MockUserRepository empty_backend" "[]" "()" 3 25]
  by (simp add: atoi_sample_def Query_def query_sample_def word_sless_alt)

text \<open>
  C10: \<^verbatim>\<open>BaseRepository.FindAll\<close> discards the error of the count query. Whenever the
  count query fails and the page query succeeds, \<^verbatim>\<open>FindAll\<close> returns the items of the
  page with total 0 and a nil error, so a caller (the user service, on the repository
  built from that database) can be handed a successful result whose total is 0
  although the items are not empty.
\<close>

theorem FindAll_discards_count_error:
  assumes "db_Count db s = (Inl countErr, s1)"
    and "db_Find db s1 ((page - 1) * perPage) perPage = ((None, entities), s2)"
  shows "BaseRepository_FindAll db s page perPage = ((entities, 0, None), s2)
       \<and> userService_FindAll (NewUserRepository db) s page perPage
           = (Inr (map toUserResponse entities, 0), s2)"
  using assms
  by (simp add: BaseRepository_FindAll_def userService_FindAll_def NewUserRepository_def)

theorem FindAll_discards_count_error_witness:
  "db_Count flaky_db () = (Inl (ErrOther ''context deadline exceeded''), ())
   \<and> db_Find flaky_db () ((1 - 1) * 10) 10 = ((None, [alice]), ())
   \<and> BaseRepository_FindAll flaky_db () 1 10 = (([alice], 0, None), ())
   \<and> userService_FindAll (NewUserRepository flaky_db) () 1 10
       = (Inr ([toUserResponse alice], 0), ())
   \<and> [alice] \<noteq> []"
  using FindAll_discards_count_error [of flaky_db "()" "ErrOther ''context deadline exceeded''"
      "()" 1 10 "[alice]" "()"]
  by (simp add: flaky_db_def)

section \<open>Not found\<close>

text \<open>
  C5: for every id for which the backend reports record not found, each of
  \<^verbatim>\<open>FindByID\<close>, \<^verbatim>\<open>Update\<close> and \<^verbatim>\<open>Delete\<close> fails with \<^verbatim>\<open>ErrUserNotFound\<close>; the only
  call the repository receives is the lookup, so \<^verbatim>\<open>Delete\<close> makes no delete call.
\<close>

theorem absent_id_gives_ErrUserNotFound:
  assumes "repo_FindByID r s ident = (Inl err, s1)"
    and "errors_Is err ErrRecordNotFound"
  shows "userService_FindByID (recording r) (log, s) ident =
           (Inl ErrUserNotFound, (log @ [Call_FindByID ident], s1))
       \<and> userService_Update (recording r) (log, s) ident input =
           (Inl ErrUserNotFound, (log @ [Call_FindByID ident], s1))
       \<and> userService_Delete (recording r) (log, s) ident =
           (Some ErrUserNotFound, (log @ [Call_FindByID ident], s1))"
  using assms
  by (simp add: userService_FindByID_def userService_Update_def userService_Delete_def
      recording_simps)

theorem absent_id_gives_ErrUserNotFound_witness:
  "errors_Is ErrRecordNotFound ErrRecordNotFound
   \<and> userService_FindByID (recording (MockUserRepository empty_backend)) ([], ()) ''invalid-id'' =
           (Inl ErrUserNotFound, ([Call_FindByID ''invalid-id''], ()))
   \<and> userService_Update (recording (MockUserRepository empty_backend)) ([], ()) ''invalid-id''
            \<lparr> upd_Name = ''Bob'' \<rparr> =
           (Inl ErrUserNotFound, ([Call_FindByID ''invalid-id''], ()))
   \<and> userService_Delete (recording (MockUserRepository empty_backend)) ([], ()) ''invalid-id'' =
           (Some ErrUserNotFound, ([Call_FindByID ''invalid-id''], ()))"
  using absent_id_gives_ErrUserNotFound [of "MockUserRepository empty_backend" "()"
      "''invalid-id''" ErrRecordNotFound "()" "[]" "\<lparr> upd_Name = ''Bob'' \<rparr>"]
  by (simp add: MockUserRepository_def empty_backend_def)

section \<open>Update\<close>

text \<open>
  C6: for every existing user, \<^verbatim>\<open>Update\<close> hands to the store, after the lookup, a user
  whose name is the stored one when the given name is empty and the given name
  otherwise, and whose id, email, password hash, role and is_active are those of the
  stored user.
\<close>

theorem Update_changes_name_only:
  assumes "repo_FindByID r s ident = (Inr user, s1)"
  shows "\<exists>persisted.
           fst (snd (userService_Update (recording r) (log, s) ident input)) =
             log @ [Call_FindByID ident, Call_Update persisted]
         \<and> Name persisted = (if upd_Name input = [] then Name user else upd_Name input)
         \<and> ID persisted = ID user \<and> Email persisted = Email user
         \<and> Password persisted = Password user \<and> Role persisted = Role user
         \<and> IsActive persisted = IsActive user"
  using assms
  by (auto simp add: userService_Update_def recording_simps split: prod.splits option.splits)

theorem Update_changes_name_only_witness:
  "repo_FindByID (MockUserRepository alice_backend) () (ID alice) = (Inr alice, ())
   \<and> fst (snd (userService_Update (recording (MockUserRepository alice_backend))
       ([], ()) (ID alice) \<lparr> upd_Name = [] \<rparr>)) = [Call_FindByID (ID alice), Call_Update alice]
   \<and> fst (snd (userService_Update (recording (MockUserRepository alice_backend))
       ([], ()) (ID alice) \<lparr> upd_Name = ''Alicia'' \<rparr>))
       = [Call_FindByID (ID alice), Call_Update (alice\<lparr>Name := ''Alicia''\<rparr>)]"
  using
    Update_changes_name_only [of "MockUserRepository alice_backend"
      "()" "ID alice" alice "()" "[]" "\<lparr> upd_Name = [] \<rparr>"]
    Update_changes_name_only [of "MockUserRepository alice_backend"
      "()" "ID alice" alice "()" "[]" "\<lparr> upd_Name = ''Alicia'' \<rparr>"]
  by (simp add: MockUserRepository_def alice_backend_def empty_backend_def alice_def
      userService_Update_def recording_simps)

section \<open>Create\<close>

text \<open>
  C7: whenever the uniqueness lookup finds a user with the email, \<^verbatim>\<open>Create\<close> fails with
  \<^verbatim>\<open>ErrEmailAlreadyExists\<close>; the repository has received the lookup and nothing else,
  and the state of the store is the one the lookup left.
\<close>

theorem Create_existing_email_rejected_without_persist:
  assumes "repo_FindByEmail r s (in_Email input) = (Inr existing, s1)"
  shows "userService_Create (recording r) bc (log, s) input =
           (Inl ErrEmailAlreadyExists, (log @ [Call_FindByEmail (in_Email input)], s1))"
  using assms by (simp add: userService_Create_def recording_simps)

theorem Create_existing_email_rejected_witness:
  "repo_FindByEmail (MockUserRepository alice_backend) () ''alice@example.com'' = (Inr alice, ())
   \<and> userService_Create (recording (MockUserRepository alice_backend)) fake_bcrypt ([], ())
       \<lparr> in_Name = ''Alice Two'', in_Email = ''alice@example.com'', in_Password = ''password123'' \<rparr> =
     (Inl ErrEmailAlreadyExists, ([Call_FindByEmail ''alice@example.com''], ()))"
  using Create_existing_email_rejected_without_persist [of "MockUserRepository alice_backend" "()"
      "\<lparr> in_Name = ''Alice Two'', in_Email = ''alice@example.com'', in_Password = ''password123'' \<rparr>"
      alice "()" fake_bcrypt "[]"]
  by (simp add: MockUserRepository_def alice_backend_def empty_backend_def)

text \<open>
  C2 says that a lookup failing with an error other than record not found makes
  \<^verbatim>\<open>Create\<close> return that error without hashing or persisting. Run on a repository
  whose lookup fails with a connection error: the error is dropped, the password is
  hashed, the user is handed to the store, and \<^verbatim>\<open>Create\<close> reports success.
\<close>

theorem Create_proceeds_after_failed_lookup:
  "\<not> errors_Is (ErrOther ''database connection failed'') ErrRecordNotFound
   \<and> userService_Create (recording (MockUserRepository backend_down)) fake_bcrypt ([], ())
       \<lparr> in_Name = ''John Doe'', in_Email = ''john@example.com'', in_Password = ''password123'' \<rparr>
     = (Inr \<lparr> resp_ID = ''0b9d6c1e-58a3-4d0f-8a57-3f6f2f1f2a77'', resp_Name = ''John Doe'',
              resp_Email = ''john@example.com'', resp_Role = ''user'', resp_IsActive = True \<rparr>,
        ([Call_FindByEmail ''john@example.com'',
          Call_Create \<lparr> ID = zero_ID, Name = ''John Doe'', Email = ''john@example.com'',
                        Password = ''$2a$10$password123'', Role = ''user'', IsActive = True \<rparr>], ()))"
  by (simp add: userService_Create_def recording_simps MockUserRepository_def backend_down_def
      empty_backend_def fake_bcrypt_def toUserResponse_def)

section \<open>Login\<close>

text \<open>
  C4: a login with an email that matches no user, a login whose password does not
  match the stored hash, and a login of a user who is not active fail with the same
  error value, \<^verbatim>\<open>ErrInvalidCredentials\<close>.
\<close>

theorem Login_failures_indistinguishable:
  "(repo_FindByEmail r s (login_Email input) = (Inl err, s1) \<and> errors_Is err ErrRecordNotFound
      \<longrightarrow> authService_Login r bc generate s input = (Inl ErrInvalidCredentials, s1))
   \<and> (repo_FindByEmail r s (login_Email input) = (Inr user, s1)
        \<and> CompareHashAndPassword bc (Password user) (login_Password input) = Some mismatch
      \<longrightarrow> authService_Login r bc generate s input = (Inl ErrInvalidCredentials, s1))
   \<and> (repo_FindByEmail r s (login_Email input) = (Inr user, s1)
        \<and> CompareHashAndPassword bc (Password user) (login_Password input) = None
        \<and> \<not> IsActive user
      \<longrightarrow> authService_Login r bc generate s input = (Inl ErrInvalidCredentials, s1))"
  by (simp add: authService_Login_def)

theorem Login_failures_indistinguishable_witness:
  "authService_Login (MockUserRepository empty_backend) fake_bcrypt const_token ()
      \<lparr> login_Email = ''nobody@example.com'', login_Password = ''s3cret-pass'' \<rparr>
     = (Inl ErrInvalidCredentials, ())
   \<and> authService_Login (MockUserRepository alice_backend) fake_bcrypt const_token ()
        \<lparr> login_Email = ''alice@example.com'', login_Password = ''wrong-pass'' \<rparr>
     = (Inl ErrInvalidCredentials, ())
   \<and> authService_Login
        (MockUserRepository (empty_backend\<lparr>on_FindByEmail := Inr (alice\<lparr>IsActive := False\<rparr>)\<rparr>))
        fake_bcrypt const_token ()
        \<lparr> login_Email = ''alice@example.com'', login_Password = ''s3cret-pass'' \<rparr>
     = (Inl ErrInvalidCredentials, ())"
  using
    Login_failures_indistinguishable [of "MockUserRepository empty_backend" "()"
      "\<lparr> login_Email = ''nobody@example.com'', login_Password = ''s3cret-pass'' \<rparr>"
      ErrRecordNotFound "()" fake_bcrypt const_token alice "ErrOther ''mismatch''"]
    Login_failures_indistinguishable [of "MockUserRepository alice_backend" "()"
      "\<lparr> login_Email = ''alice@example.com'', login_Password = ''wrong-pass'' \<rparr>"
      ErrRecordNotFound "()" fake_bcrypt const_token alice
      "ErrOther ''crypto/bcrypt: hashedPassword is not the hash of the given password''"]
    Login_failures_indistinguishable [of
      "MockUserRepository (empty_backend\<lparr>on_FindByEmail := Inr (alice\<lparr>IsActive := False\<rparr>)\<rparr>)" "()"
      "\<lparr> login_Email = ''alice@example.com'', login_Password = ''s3cret-pass'' \<rparr>"
      ErrRecordNotFound "()" fake_bcrypt const_token "alice\<lparr>IsActive := False\<rparr>"
      "ErrOther ''mismatch''"]
  by (simp add: MockUserRepository_def alice_backend_def empty_backend_def alice_def
      fake_bcrypt_def)

text \<open>
  C3 says that a lookup failing for an unexpected reason makes \<^verbatim>\<open>Login\<close> return that
  error, a value other than \<^verbatim>\<open>ErrInvalidCredentials\<close>. Run on a repository whose lookup
  fails with a connection error, \<^verbatim>\<open>Login\<close> returns \<^verbatim>\<open>ErrInvalidCredentials\<close>.
\<close>

theorem Login_turns_failed_lookup_into_ErrInvalidCredentials:
  "\<not> errors_Is (ErrOther ''database connection failed'') ErrRecordNotFound
   \<and> authService_Login (MockUserRepository backend_down) fake_bcrypt const_token ()
       \<lparr> login_Email = ''alice@example.com'', login_Password = ''s3cret-pass'' \<rparr>
     = (Inl ErrInvalidCredentials, ())
   \<and> ErrInvalidCredentials \<noteq> ErrOther ''database connection failed''"
  by (simp add: authService_Login_def MockUserRepository_def backend_down_def empty_backend_def)

section \<open>The password hash stays inside\<close>

text \<open>
  C8: no operation serializes the stored password hash. A \<^verbatim>\<open>UserResponse\<close> is made of
  its fields id, name, email, role and is_active and nothing else, and \<^verbatim>\<open>toUserResponse\<close> gives the same
  response for two users that differ only in their password hash: replacing the hash
  of a user by any \<open>h\<close> leaves the response unchanged. The response of a successful
  \<^verbatim>\<open>FindByID\<close>, \<^verbatim>\<open>FindAll\<close>, \<^verbatim>\<open>Update\<close>, \<^verbatim>\<open>Create\<close> and \<^verbatim>\<open>Login\<close> is the one built from the
  user the store returned, read, saved or created, with its hash replaced by any \<open>h\<close>.
\<close>

theorem UserResponse_independent_of_Password:
  "(resp :: UserResponse) =
      \<lparr> resp_ID = resp_ID resp, resp_Name = resp_Name resp, resp_Email = resp_Email resp,
        resp_Role = resp_Role resp, resp_IsActive = resp_IsActive resp \<rparr>
   \<and> toUserResponse (user\<lparr>Password := h\<rparr>) = toUserResponse user
   \<and> (repo_FindByID r s ident = (Inr user, s1)
        \<longrightarrow> fst (userService_FindByID r s ident) = Inr (toUserResponse (user\<lparr>Password := h\<rparr>)))
   \<and> (repo_FindAll r s page perPage = ((users, n, None), s1)
        \<longrightarrow> fst (userService_FindAll r s page perPage)
              = Inr (map (\<lambda>u. toUserResponse (u\<lparr>Password := h\<rparr>)) users, n))
   \<and> (repo_FindByID r s ident = (Inr user, s1)
        \<and> repo_Update r s1 (if upd_Name input \<noteq> [] then user\<lparr>Name := upd_Name input\<rparr> else user)
            = ((None, saved), s2)
        \<longrightarrow> fst (userService_Update r s ident input) = Inr (toUserResponse (saved\<lparr>Password := h\<rparr>)))
   \<and> (repo_FindByEmail r s (in_Email cin) = (Inl err, s1)
        \<and> GenerateFromPassword bc (in_Password cin) = Inr hashed
        \<and> repo_Create r s1 \<lparr> ID = zero_ID, Name = in_Name cin, Email = in_Email cin,
                              Password = hashed, Role = ''user'', IsActive = True \<rparr>
            = ((None, created), s2)
        \<longrightarrow> fst (userService_Create r bc s cin) = Inr (toUserResponse (created\<lparr>Password := h\<rparr>)))
   \<and> (repo_FindByEmail r s (login_Email lin) = (Inr user, s1)
        \<and> CompareHashAndPassword bc (Password user) (login_Password lin) = None
        \<and> IsActive user
        \<and> generate (ID user) (Email user) (Role user) = Inr tok
        \<longrightarrow> fst (authService_Login r bc generate s lin)
              = Inr \<lparr> Token = tok, AuthUser = toUserResponse (user\<lparr>Password := h\<rparr>) \<rparr>)"
  unfolding toUserResponse_Password
  using UserResponse_fields [of resp]
    FindByID_response [of r s ident user s1]
    FindAll_response [of r s page perPage users n s1]
    Update_response [of r s ident user s1 input saved s2]
    Create_response [of r s cin err s1 bc hashed created s2]
    Login_response [of r s lin user s1 bc generate tok]
  by blast

theorem UserResponse_independent_of_Password_witness:
  "toUserResponse (alice\<lparr>Password := ''$2a$10$other-hash''\<rparr>) = toUserResponse alice
   \<and> fst (userService_FindByID (MockUserRepository alice_backend) () (ID alice))
       = Inr (toUserResponse (alice\<lparr>Password := ''$2a$10$other-hash''\<rparr>))
   \<and> fst (userService_FindAll (MockUserRepository alice_backend) () 1 10)
       = Inr ([toUserResponse (alice\<lparr>Password := ''$2a$10$other-hash''\<rparr>)], 1)
   \<and> fst (userService_Update (MockUserRepository alice_backend) () (ID alice)
            \<lparr> upd_Name = ''Alicia'' \<rparr>)
       = Inr (toUserResponse (alice\<lparr>Name := ''Alicia'', Password := ''$2a$10$other-hash''\<rparr>))
   \<and> fst (userService_Create (MockUserRepository empty_backend) fake_bcrypt ()
            \<lparr> in_Name = ''John Doe'', in_Email = ''john@example.com'',
              in_Password = ''password123'' \<rparr>)
       = Inr (toUserResponse
               \<lparr> ID = new_ID empty_backend, Name = ''John Doe'', Email = ''john@example.com'',
                 Password = ''$2a$10$other-hash'', Role = ''user'', IsActive = True \<rparr>)
   \<and> fst (authService_Login (MockUserRepository alice_backend) fake_bcrypt const_token ()
            \<lparr> login_Email = ''alice@example.com'', login_Password = ''s3cret-pass'' \<rparr>)
       = Inr \<lparr> Token = ''token-for-'' @ ID alice,
               AuthUser = toUserResponse (alice\<lparr>Password := ''$2a$10$other-hash''\<rparr>) \<rparr>"
  using
    UserResponse_independent_of_Password [where user = alice and h = "''$2a$10$other-hash''"
      and r = "MockUserRepository alice_backend" and s = "()" and ident = "ID alice" and ?s1.0 = "()"
      and page = 1 and perPage = 10 and users = "[alice]" and n = 1
      and input = "\<lparr> upd_Name = ''Alicia'' \<rparr>" and saved = "alice\<lparr>Name := ''Alicia''\<rparr>"
      and ?s2.0 = "()" and bc = fake_bcrypt and generate = const_token
      and lin = "\<lparr> login_Email = ''alice@example.com'', login_Password = ''s3cret-pass'' \<rparr>"
      and tok = "''token-for-'' @ ID alice"
      and cin = "\<lparr> in_Name = ''John Doe'', in_Email = ''john@example.com'',
              in_Password = ''password123'' \<rparr>"]
    UserResponse_independent_of_Password [where user = alice and h = "''$2a$10$other-hash''"
      and r = "MockUserRepository empty_backend" and s = "()" and ?s1.0 = "()" and ?s2.0 = "()"
      and bc = fake_bcrypt and err = ErrRecordNotFound
      and hashed = "''$2a$10$password123''"
      and created = "\<lparr> ID = new_ID empty_backend, Name = ''John Doe'',
                       Email = ''john@example.com'', Password = ''$2a$10$password123'',
                       Role = ''user'', IsActive = True \<rparr>"
      and cin = "\<lparr> in_Name = ''John Doe'', in_Email = ''john@example.com'',
              in_Password = ''password123'' \<rparr>"]
  by (simp add: MockUserRepository_def alice_backend_def empty_backend_def alice_def
      fake_bcrypt_def const_token_def)

section \<open>Token round trip\<close>

text \<open>
  C9: for every TTL above 0 and every subject, email and role, a token that
  \<^verbatim>\<open>Generate\<close> has produced, passed at once to \<^verbatim>\<open>Validate\<close> of the same manager, is
  accepted, and the claims returned carry the subject, email and role it was issued
  for.
\<close>

theorem Generate_then_Validate_roundtrip:
  assumes "0 < expireHours m"
    and "JWTManager_Generate sign m now userID email role = Inr tokenString"
  shows "\<exists>claims. JWTManager_Validate sign m now tokenString = Inr claims
           \<and> UserID claims = userID \<and> claim_Email claims = email \<and> claim_Role claims = role"
  using assms
  by (auto simp add: JWTManager_Generate_def JWTManager_Validate_def Let_def split: sum.splits)

theorem Generate_then_Validate_roundtrip_witness:
  "(0 :: int) < 24
   \<and> JWTManager_Generate toy_sign
        \<lparr> secret = ''test-secret-key-min-32-characters'', expireHours = 24 \<rparr>
        1700000000 ''user-123'' ''test@example.com'' ''admin''
      = Inr (Signed \<lparr> UserID = ''user-123'', claim_Email = ''test@example.com'',
                      claim_Role = ''admin'', IssuedAt = 1700000000, ExpiresAt = 1700086400 \<rparr>
               ''test-secret-key-min-32-characters.user-123.test@example.com.admin'')
   \<and> JWTManager_Validate toy_sign
        \<lparr> secret = ''test-secret-key-min-32-characters'', expireHours = 24 \<rparr>
        1700000000
        (Signed \<lparr> UserID = ''user-123'', claim_Email = ''test@example.com'',
                  claim_Role = ''admin'', IssuedAt = 1700000000, ExpiresAt = 1700086400 \<rparr>
           ''test-secret-key-min-32-characters.user-123.test@example.com.admin'')
      = Inr \<lparr> UserID = ''user-123'', claim_Email = ''test@example.com'', claim_Role = ''admin'',
              IssuedAt = 1700000000, ExpiresAt = 1700086400 \<rparr>"
  using Generate_then_Validate_roundtrip [of
      "\<lparr> secret = ''test-secret-key-min-32-characters'', expireHours = 24 \<rparr>" toy_sign 1700000000
      "''user-123''" "''test@example.com''" "''admin''"
      "Signed \<lparr> UserID = ''user-123'', claim_Email = ''test@example.com'', claim_Role = ''admin'',
                 IssuedAt = 1700000000, ExpiresAt = 1700086400 \<rparr>
          ''test-secret-key-min-32-characters.user-123.test@example.com.admin''"]
  by (simp add: JWTManager_Generate_def JWTManager_Validate_def toy_sign_def)

end
